theory Spec2Isabelle
  imports Main "HOL-Library.Word"
begin

section \<open>Go values of the user service\<close>

text \<open>
  The service (\<^verbatim>\<open>src/user/main.go\<close>) is two HTTP handlers over three external
  collaborators: a blob store, a Service Bus queue and a SQL database. The handlers are
  embedded as state-passing functions over a \<open>world\<close> that holds the collaborators'
  state and the trace of the calls made to them. What a collaborator answers to a call
  (success or an error) is not decided by the service; it is an input of the model.

  A Go \<^verbatim>\<open>error\<close> is its message. \<^verbatim>\<open>fmt.Errorf("prefix: %v", err)\<close> is the prefix
  followed by the message of the wrapped error.
\<close>

datatype error = Error (message: string)

definition Errorf :: "string \<Rightarrow> error \<Rightarrow> error" where
  "Errorf prefix err = Error (prefix @ message err)"

text \<open>The \<^verbatim>\<open>Config\<close> struct with its two anonymous nested structs.\<close>

record Database_config =
  ConnectionString :: string

record Azure_config =
  BlobConnectionString :: string
  ServiceBusConnectionString :: string

record Config =
  Database :: Database_config
  Azure :: Azure_config

text \<open>
  \<^verbatim>\<open>time.Time\<close> is a struct of a wall-clock word, a monotonic/extended word and a
  location pointer; its zero value has all three zero.
\<close>

record Time =
  wall :: "64 word"
  ext :: "64 word"
  loc :: "string option"

definition zero_Time :: Time where
  "zero_Time = \<lparr>wall = 0, ext = 0, loc = None\<rparr>"

text \<open>The \<^verbatim>\<open>User\<close> struct; \<^verbatim>\<open>ID\<close> is an \<^verbatim>\<open>int64\<close>.\<close>

record User =
  ID :: "64 word"
  Name :: string
  Email :: string
  Link :: string
  CreatedAt :: Time

text \<open>\<^verbatim>\<open>var user User\<close> and the fields a composite literal leaves out: Go's zero value.\<close>

definition zero_User :: User where
  "zero_User = \<lparr>ID = 0, Name = [], Email = [], Link = [], CreatedAt = zero_Time\<rparr>"

text \<open>
  A Go slice is \<^verbatim>\<open>nil\<close> or holds a sequence. \<^verbatim>\<open>var users []User\<close> declares the
  \<^verbatim>\<open>nil\<close> slice; \<^verbatim>\<open>append\<close> on any slice, \<^verbatim>\<open>nil\<close> included, gives a non-nil one.
\<close>

type_synonym 'a slice = "'a list option"

definition nil_slice :: "'a slice" where
  "nil_slice = None"

fun elems :: "'a slice \<Rightarrow> 'a list" where
  "elems None = []"
| "elems (Some xs) = xs"

definition append_slice :: "'a slice \<Rightarrow> 'a \<Rightarrow> 'a slice" where
  "append_slice s x = Some (elems s @ [x])"

section \<open>JSON documents\<close>

text \<open>
  \<^verbatim>\<open>encoding/json\<close> is a library of the Go distribution. Its output is modelled as
  the JSON document it denotes, not as bytes: escaping and number syntax are the
  library's. \<open>JString s\<close> is the JSON string the encoder writes for the Go string \<open>s\<close>;
  \<open>JTime t\<close> is the RFC 3339 string \<^verbatim>\<open>Time.MarshalJSON\<close> writes for \<open>t\<close>. The member
  names of a struct come from its \<^verbatim>\<open>json:"..."\<close> tags, in field order. A slice encodes
  as an array, except that the \<^verbatim>\<open>nil\<close> slice encodes as \<^verbatim>\<open>null\<close>. A
  \<^verbatim>\<open>map[string]string\<close> encodes as an object with its keys sorted.
\<close>

datatype json =
    JNull
  | JNumber int
  | JString string
  | JTime Time
  | JArray "json list"
  | JObject "(string \<times> json) list"

definition User_json :: "User \<Rightarrow> json" where
  "User_json u = JObject
     [(''id'', JNumber (sint (ID u))),
      (''name'', JString (Name u)),
      (''email'', JString (Email u)),
      (''link'', JString (Link u)),
      (''createdAt'', JTime (CreatedAt u))]"

fun users_json :: "User slice \<Rightarrow> json" where
  "users_json None = JNull"
| "users_json (Some us) = JArray (map User_json us)"

text \<open>Reading a member of an object, for stating what a response body holds.\<close>

fun member :: "string \<Rightarrow> json \<Rightarrow> json option" where
  "member k (JObject kvs) = map_of kvs k"
| "member k _ = None"

section \<open>The HTTP response writer and the request\<close>

text \<open>
  A \<^verbatim>\<open>http.ResponseWriter\<close>: the status line once written, and what was written to
  the body. The first \<^verbatim>\<open>Write\<close> sends status 200 when no header was written before;
  a second \<^verbatim>\<open>WriteHeader\<close> is ignored. \<^verbatim>\<open>http.Error\<close> writes the header with the code
  and then the message and a newline. \<^verbatim>\<open>json.NewEncoder(w).Encode(v)\<close> writes the
  document of \<open>v\<close> and a newline in one \<^verbatim>\<open>Write\<close>. Header fields are not modelled.
\<close>

datatype chunk = Text string | JsonLine json

record ResponseWriter =
  status :: "nat option"
  body :: "chunk list"

definition new_ResponseWriter :: ResponseWriter where
  "new_ResponseWriter = \<lparr>status = None, body = []\<rparr>"

definition StatusOK :: nat where "StatusOK = 200"
definition StatusBadRequest :: nat where "StatusBadRequest = 400"
definition StatusInternalServerError :: nat where "StatusInternalServerError = 500"

definition WriteHeader :: "ResponseWriter \<Rightarrow> nat \<Rightarrow> ResponseWriter" where
  "WriteHeader rw code = (case status rw of None \<Rightarrow> rw\<lparr>status := Some code\<rparr> | Some _ \<Rightarrow> rw)"

definition Write :: "ResponseWriter \<Rightarrow> chunk \<Rightarrow> ResponseWriter" where
  "Write rw c = (let rw' = WriteHeader rw StatusOK in rw'\<lparr>body := body rw' @ [c]\<rparr>)"

definition http_Error :: "ResponseWriter \<Rightarrow> string \<Rightarrow> nat \<Rightarrow> ResponseWriter" where
  "http_Error rw msg code = Write (WriteHeader rw code) (Text (msg @ [CHR 0x0A]))"

definition Encode :: "ResponseWriter \<Rightarrow> json \<Rightarrow> ResponseWriter" where
  "Encode rw v = Write rw (JsonLine v)"

text \<open>The status the client receives: 200 when the handler returns without writing.\<close>

definition status_code :: "ResponseWriter \<Rightarrow> nat" where
  "status_code rw = (case status rw of None \<Rightarrow> StatusOK | Some c \<Rightarrow> c)"

text \<open>
  The request as the handler reads it: \<^verbatim>\<open>r.FormValue(key)\<close> (the empty string when
  the field is missing) and \<^verbatim>\<open>r.FormFile(key)\<close>, which gives the file's bytes and its
  \<^verbatim>\<open>FileHeader\<close>, or an error when the part is missing or the body is malformed.
\<close>

record FileHeader =
  Filename :: string

record Request =
  FormValue :: "string \<Rightarrow> string"
  FormFile :: "string \<Rightarrow> error + (string \<times> FileHeader)"

section \<open>The collaborators\<close>

text \<open>
  A stored blob is its bytes and its metadata map; a Service Bus message is built by the
  service with its \<^verbatim>\<open>Body\<close> alone. A row of the \<^verbatim>\<open>users\<close> table is what
  \<^verbatim>\<open>rows.Scan\<close> makes of it with the five destinations of the handler: five values, or
  an error (a \<^verbatim>\<open>NULL\<close>, a column of another type, another number of columns).
\<close>

record Blob =
  content :: string
  metadata :: "(string \<times> string) list"

record Message =
  Body :: json

datatype row =
    Columns "64 word" string string string Time
  | Unscannable error

text \<open>
  The calls the service makes to its collaborators, with their arguments: the connection
  string of a client, the container, blob name, bytes and metadata of an upload, the
  queue of a sender, the queue and message of a send, the text of a query.
\<close>

datatype call =
    Blob_NewClient string
  | Blob_UploadStream string string string "(string \<times> string) list"
  | SB_NewClient string
  | SB_NewSender string
  | SB_SendMessage string Message
  | SB_Sender_Close
  | SB_Client_Close
  | DB_Query string
  | DB_Rows_Close

text \<open>
  The world: the blobs by (container, name), the messages of each queue, the rows of the
  \<^verbatim>\<open>users\<close> table in storage order, the calls made so far, and the log (the text of a
  \<^verbatim>\<open>log.Printf\<close> format before its verb, and the value printed).
\<close>

datatype log_arg = ErrArg error | JsonArg json

record world =
  blobs :: "string \<times> string \<rightharpoonup> Blob"
  queues :: "string \<Rightarrow> Message list"
  users_table :: "row list"
  calls :: "call list"
  logs :: "(string \<times> log_arg) list"

definition called :: "call \<Rightarrow> world \<Rightarrow> world" where
  "called c w = w\<lparr>calls := calls w @ [c]\<rparr>"

definition log_Printf :: "string \<Rightarrow> log_arg \<Rightarrow> world \<Rightarrow> world" where
  "log_Printf fmt a w = w\<lparr>logs := logs w @ [(fmt, a)]\<rparr>"

text \<open>
  What the Azure services answer during one create request: for each call the handler
  can make, \<open>None\<close> when it succeeds or the error it returns. \<^verbatim>\<open>json.Marshal\<close> is
  listed with them: the source handles its error, and the model lets it fail.
\<close>

record azure_outcomes =
  blob_client_err :: "error option"
  upload_err :: "error option"
  sb_client_err :: "error option"
  sender_err :: "error option"
  marshal_err :: "error option"
  send_err :: "error option"

text \<open>
  What the database answers during one list request: the query fails, or it gives a
  cursor over the table's rows in storage order; the cursor can fail after \<open>n\<close> rows
  (\<^verbatim>\<open>rows.Next\<close> then returns false and \<^verbatim>\<open>rows.Err\<close> holds the error).
\<close>

record db_outcomes =
  query_err :: "error option"
  next_err :: "(nat \<times> error) option"

record Rows =
  pending :: "row list"
  lasterr :: "error option"

text \<open>The blob client: construction, and \<^verbatim>\<open>UploadStream\<close>, which on success stores the
  object under (container, name), replacing what was there.\<close>

definition azblob_NewClientFromConnectionString ::
  "string \<Rightarrow> azure_outcomes \<Rightarrow> world \<Rightarrow> error option \<times> world" where
  "azblob_NewClientFromConnectionString cs oc w =
     (blob_client_err oc, called (Blob_NewClient cs) w)"

definition UploadStream ::
  "string \<Rightarrow> string \<Rightarrow> string \<Rightarrow> (string \<times> string) list \<Rightarrow> azure_outcomes \<Rightarrow> world
    \<Rightarrow> error option \<times> world" where
  "UploadStream container name file md oc w =
     (let w' = called (Blob_UploadStream container name file md) w in
      case upload_err oc of
        Some err \<Rightarrow> (Some err, w')
      | None \<Rightarrow>
          (None, w'\<lparr>blobs := (blobs w')((container, name) \<mapsto>
                     \<lparr>content = file, metadata = md\<rparr>)\<rparr>))"

text \<open>The Service Bus client, its sender, and \<^verbatim>\<open>SendMessage\<close>, which on success
  appends the message to the sender's queue.\<close>

definition azservicebus_NewClientFromConnectionString ::
  "string \<Rightarrow> azure_outcomes \<Rightarrow> world \<Rightarrow> error option \<times> world" where
  "azservicebus_NewClientFromConnectionString cs oc w =
     (sb_client_err oc, called (SB_NewClient cs) w)"

definition NewSender :: "string \<Rightarrow> azure_outcomes \<Rightarrow> world \<Rightarrow> error option \<times> world" where
  "NewSender queue oc w = (sender_err oc, called (SB_NewSender queue) w)"

definition SendMessage ::
  "string \<Rightarrow> Message \<Rightarrow> azure_outcomes \<Rightarrow> world \<Rightarrow> error option \<times> world" where
  "SendMessage queue m oc w =
     (let w' = called (SB_SendMessage queue m) w in
      case send_err oc of
        Some err \<Rightarrow> (Some err, w')
      | None \<Rightarrow> (None, w'\<lparr>queues := (queues w')(queue := queues w' queue @ [m])\<rparr>))"

definition sender_Close :: "world \<Rightarrow> world" where
  "sender_Close w = called SB_Sender_Close w"

definition client_Close :: "world \<Rightarrow> world" where
  "client_Close w = called SB_Client_Close w"

definition json_Marshal :: "User \<Rightarrow> azure_outcomes \<Rightarrow> error + json" where
  "json_Marshal u oc = (case marshal_err oc of Some err \<Rightarrow> Inl err | None \<Rightarrow> Inr (User_json u))"

text \<open>The database: \<^verbatim>\<open>db.Query\<close>, and \<^verbatim>\<open>rows.Scan\<close> into the five fields of a
  \<^verbatim>\<open>User\<close>.\<close>

definition db_Query :: "string \<Rightarrow> db_outcomes \<Rightarrow> world \<Rightarrow> (error + Rows) \<times> world" where
  "db_Query q oc w =
     (let w' = called (DB_Query q) w in
      case query_err oc of
        Some err \<Rightarrow> (Inl err, w')
      | None \<Rightarrow>
          (case next_err oc of
             None \<Rightarrow> (Inr \<lparr>pending = users_table w', lasterr = None\<rparr>, w')
           | Some (n, err) \<Rightarrow>
               (Inr \<lparr>pending = take n (users_table w'), lasterr = Some err\<rparr>, w')))"

definition rows_Close :: "world \<Rightarrow> world" where
  "rows_Close w = called DB_Rows_Close w"

fun Scan :: "row \<Rightarrow> User \<Rightarrow> error + User" where
  "Scan (Columns i n e l c) u = Inr (u\<lparr>ID := i, Name := n, Email := e, Link := l, CreatedAt := c\<rparr>)"
| "Scan (Unscannable err) u = Inl err"

section \<open>The service\<close>

text \<open>\<^verbatim>\<open>uploadToBlobStorage\<close> (lines 62 to 79).\<close>

definition uploadToBlobStorage ::
  "string \<Rightarrow> string \<Rightarrow> Config \<Rightarrow> azure_outcomes \<Rightarrow> world \<Rightarrow> (error + string) \<times> world" where
  "uploadToBlobStorage file filename config oc w =
     (case azblob_NewClientFromConnectionString (BlobConnectionString (Azure config)) oc w of
        (Some err, w1) \<Rightarrow> (Inl (Errorf ''failed to create blob client: '' err), w1)
      | (None, w1) \<Rightarrow>
          (let blobURL = ''profile-pictures'' @ ''/'' @ filename in
           case UploadStream ''profile-pictures'' filename file
                  [(''ContentType'', ''image/jpeg'')] oc w1 of
             (Some err, w2) \<Rightarrow> (Inl (Errorf ''failed to upload to blob: '' err), w2)
           | (None, w2) \<Rightarrow> (Inr blobURL, w2)))"

text \<open>\<^verbatim>\<open>sendToServiceBus\<close> (lines 82 to 112). The two deferred \<^verbatim>\<open>Close\<close> calls run
  at every return after their \<^verbatim>\<open>defer\<close>, the sender's first.\<close>

definition sendToServiceBus ::
  "User \<Rightarrow> Config \<Rightarrow> azure_outcomes \<Rightarrow> world \<Rightarrow> error option \<times> world" where
  "sendToServiceBus user config oc w =
     (case azservicebus_NewClientFromConnectionString
             (ServiceBusConnectionString (Azure config)) oc w of
        (Some err, w1) \<Rightarrow> (Some (Errorf ''failed to create service bus client: '' err), w1)
      | (None, w1) \<Rightarrow>
          (case NewSender ''user-queue'' oc w1 of
             (Some err, w2) \<Rightarrow> (Some (Errorf ''failed to create sender: '' err), client_Close w2)
           | (None, w2) \<Rightarrow>
               (case json_Marshal user oc of
                  Inl err \<Rightarrow>
                    (Some (Errorf ''failed to marshal user data: '' err),
                     client_Close (sender_Close w2))
                | Inr userData \<Rightarrow>
                    (case SendMessage ''user-queue'' \<lparr>Body = userData\<rparr> oc w2 of
                       (Some err, w3) \<Rightarrow>
                         (Some (Errorf ''failed to send message to service bus: '' err),
                          client_Close (sender_Close w3))
                     | (None, w3) \<Rightarrow>
                         (None,
                          client_Close (sender_Close
                            (log_Printf ''User data sent to Service Bus: '' (JsonArg userData) w3)))))))"

text \<open>\<^verbatim>\<open>createUser\<close> (lines 115 to 154). The deferred \<^verbatim>\<open>file.Close()\<close> releases the
  multipart file and touches no collaborator; it is left out.\<close>

definition createUser ::
  "ResponseWriter \<Rightarrow> Request \<Rightarrow> Config \<Rightarrow> azure_outcomes \<Rightarrow> world \<Rightarrow> ResponseWriter \<times> world" where
  "createUser rw r config oc w =
     (let name = FormValue r ''name'';
          email = FormValue r ''email''
      in case FormFile r ''photo'' of
           Inl err \<Rightarrow> (http_Error rw ''Invalid file upload'' StatusBadRequest, w)
         | Inr (file, header) \<Rightarrow>
             (case uploadToBlobStorage file (Filename header) config oc w of
                (Inl err, w1) \<Rightarrow>
                  (http_Error rw ''Error uploading file'' StatusInternalServerError,
                   log_Printf ''Error uploading file to blob storage: '' (ErrArg err) w1)
              | (Inr profilePicURL, w1) \<Rightarrow>
                  (let user = zero_User\<lparr>Name := name, Email := email, Link := profilePicURL\<rparr>
                   in case sendToServiceBus user config oc w1 of
                        (Some err, w2) \<Rightarrow>
                          (http_Error rw ''Error sending user data'' StatusInternalServerError,
                           log_Printf ''Error sending user data to Service Bus: '' (ErrArg err) w2)
                      | (None, w2) \<Rightarrow>
                          (Encode rw
                             (JObject
                                [(''message'', JString ''User created successfully''),
                                 (''profile_pic_url'', JString profilePicURL)]),
                           w2))))"

text \<open>\<^verbatim>\<open>getUsers\<close> (lines 157 to 178). The loop runs while \<^verbatim>\<open>rows.Next()\<close> is true,
  that is over the pending rows; a \<^verbatim>\<open>Scan\<close> error leaves it through the early return.
  After the loop the handler encodes \<^verbatim>\<open>users\<close>; it does not read \<^verbatim>\<open>rows.Err()\<close>.\<close>

fun scan_rows :: "row list \<Rightarrow> User slice \<Rightarrow> error + User slice" where
  "scan_rows [] users = Inr users"
| "scan_rows (r # rs) users =
     (case Scan r zero_User of
        Inl err \<Rightarrow> Inl err
      | Inr user \<Rightarrow> scan_rows rs (append_slice users user))"

definition getUsers :: "ResponseWriter \<Rightarrow> db_outcomes \<Rightarrow> world \<Rightarrow> ResponseWriter \<times> world" where
  "getUsers rw oc w =
     (case db_Query ''SELECT * FROM users'' oc w of
        (Inl err, w1) \<Rightarrow>
          (http_Error rw ''Error fetching users'' StatusInternalServerError,
           log_Printf ''Error fetching users from database: '' (ErrArg err) w1)
      | (Inr rows, w1) \<Rightarrow>
          (case scan_rows (pending rows) nil_slice of
             Inl err \<Rightarrow>
               (http_Error rw ''Error scanning user data'' StatusInternalServerError,
                rows_Close (log_Printf ''Error scanning row: '' (ErrArg err) w1))
           | Inr users \<Rightarrow> (Encode rw (users_json users), rows_Close w1)))"

section \<open>Reading a run\<close>

text \<open>The collaborator calls made between two worlds, and the kinds of call.\<close>

definition calls_made :: "world \<Rightarrow> world \<Rightarrow> call list" where
  "calls_made w w' = drop (length (calls w)) (calls w')"

fun is_blob_call :: "call \<Rightarrow> bool" where
  "is_blob_call (Blob_NewClient _) = True"
| "is_blob_call (Blob_UploadStream _ _ _ _) = True"
| "is_blob_call _ = False"

fun is_servicebus_call :: "call \<Rightarrow> bool" where
  "is_servicebus_call (SB_NewClient _) = True"
| "is_servicebus_call (SB_NewSender _) = True"
| "is_servicebus_call (SB_SendMessage _ _) = True"
| "is_servicebus_call SB_Sender_Close = True"
| "is_servicebus_call SB_Client_Close = True"
| "is_servicebus_call _ = False"

fun is_db_call :: "call \<Rightarrow> bool" where
  "is_db_call (DB_Query _) = True"
| "is_db_call DB_Rows_Close = True"
| "is_db_call _ = False"

text \<open>The outcome of a create request in terms of what the collaborators answered.\<close>

definition upload_succeeds :: "azure_outcomes \<Rightarrow> bool" where
  "upload_succeeds oc = (blob_client_err oc = None \<and> upload_err oc = None)"

definition publish_succeeds :: "azure_outcomes \<Rightarrow> bool" where
  "publish_succeeds oc =
     (sb_client_err oc = None \<and> sender_err oc = None \<and> marshal_err oc = None \<and> send_err oc = None)"


fun is_upload_call :: "call \<Rightarrow> bool" where
  "is_upload_call (Blob_UploadStream _ _ _ _) = True"
| "is_upload_call _ = False"

fun is_send_call :: "call \<Rightarrow> bool" where
  "is_send_call (SB_SendMessage _ _) = True"
| "is_send_call _ = False"

section \<open>Sample runs\<close>

text \<open>
  Concrete inputs on which the theorems below are instantiated: a configuration, a create
  request with a photo part (PNG bytes under the name \<^verbatim>\<open>ada.png\<close>), a second request
  whose photo part carries the same name, a request with no photo part, collaborators
  that succeed or fail at one call, and two worlds.
\<close>

definition sample_config :: Config where
  "sample_config =
     \<lparr>Database = \<lparr>ConnectionString = ''sqlserver://db''\<rparr>,
      Azure = \<lparr>BlobConnectionString = ''blob-conn'', ServiceBusConnectionString = ''sb-conn''\<rparr>\<rparr>"

definition sample_request :: Request where
  "sample_request =
     \<lparr>FormValue = (\<lambda>k. if k = ''name'' then ''Ada''
                        else if k = ''email'' then ''ada@example.org'' else []),
      FormFile = (\<lambda>k. if k = ''photo'' then Inr (''PNG-bytes'', \<lparr>Filename = ''ada.png''\<rparr>)
                       else Inl (Error ''http: no such file''))\<rparr>"

definition second_request :: Request where
  "second_request =
     \<lparr>FormValue = (\<lambda>k. if k = ''name'' then ''Adam''
                        else if k = ''email'' then ''adam@example.org'' else []),
      FormFile = (\<lambda>k. if k = ''photo'' then Inr (''JPEG-bytes'', \<lparr>Filename = ''ada.png''\<rparr>)
                       else Inl (Error ''http: no such file''))\<rparr>"

definition request_without_photo :: Request where
  "request_without_photo =
     \<lparr>FormValue = (\<lambda>k. if k = ''name'' then ''Ada''
                        else if k = ''email'' then ''ada@example.org'' else []),
      FormFile = (\<lambda>k. Inl (Error ''http: no such file''))\<rparr>"

definition all_succeed :: azure_outcomes where
  "all_succeed =
     \<lparr>blob_client_err = None, upload_err = None, sb_client_err = None,
      sender_err = None, marshal_err = None, send_err = None\<rparr>"

definition upload_fails :: azure_outcomes where
  "upload_fails = all_succeed\<lparr>upload_err := Some (Error ''context deadline exceeded'')\<rparr>"

definition send_fails :: azure_outcomes where
  "send_fails = all_succeed\<lparr>send_err := Some (Error ''amqp: link detached'')\<rparr>"

definition db_succeeds :: db_outcomes where
  "db_succeeds = \<lparr>query_err = None, next_err = None\<rparr>"

definition cursor_breaks :: db_outcomes where
  "cursor_breaks = \<lparr>query_err = None, next_err = Some (1, Error ''connection reset'')\<rparr>"

definition empty_world :: world where
  "empty_world =
     \<lparr>blobs = Map.empty, queues = (\<lambda>q. []), users_table = [], calls = [], logs = []\<rparr>"

definition two_user_world :: world where
  "two_user_world = empty_world\<lparr>users_table :=
     [Columns 1 ''Ada'' ''ada@example.org'' ''profile-pictures/ada.png'' zero_Time,
      Columns 2 ''Bob'' ''bob@example.org'' ''profile-pictures/bob.png'' zero_Time]\<rparr>"

section \<open>The helpers, case by case\<close>

lemmas rw_defs = new_ResponseWriter_def http_Error_def Encode_def Write_def WriteHeader_def
  status_code_def StatusOK_def StatusBadRequest_def StatusInternalServerError_def Let_def

lemmas blob_defs = uploadToBlobStorage_def UploadStream_def
  azblob_NewClientFromConnectionString_def called_def

lemmas sb_defs = sendToServiceBus_def SendMessage_def NewSender_def
  azservicebus_NewClientFromConnectionString_def json_Marshal_def called_def
  sender_Close_def client_Close_def log_Printf_def

lemmas db_defs = getUsers_def db_Query_def rows_Close_def called_def log_Printf_def
  nil_slice_def append_slice_def

lemma uploadToBlobStorage_ok:
  "upload_succeeds oc \<Longrightarrow>
   uploadToBlobStorage photo filename config oc w =
     (Inr (''profile-pictures/'' @ filename),
      w\<lparr>calls := calls w @
           [Blob_NewClient (BlobConnectionString (Azure config)),
            Blob_UploadStream ''profile-pictures'' filename photo
              [(''ContentType'', ''image/jpeg'')]],
        blobs := (blobs w)((''profile-pictures'', filename) \<mapsto>
           \<lparr>content = photo, metadata = [(''ContentType'', ''image/jpeg'')]\<rparr>)\<rparr>)"
  by (simp add: blob_defs upload_succeeds_def)

lemma uploadToBlobStorage_client_fails:
  "blob_client_err oc = Some e \<Longrightarrow>
   uploadToBlobStorage photo filename config oc w =
     (Inl (Errorf ''failed to create blob client: '' e),
      w\<lparr>calls := calls w @ [Blob_NewClient (BlobConnectionString (Azure config))]\<rparr>)"
  by (simp add: blob_defs)

lemma uploadToBlobStorage_upload_fails:
  "blob_client_err oc = None \<Longrightarrow> upload_err oc = Some e \<Longrightarrow>
   uploadToBlobStorage photo filename config oc w =
     (Inl (Errorf ''failed to upload to blob: '' e),
      w\<lparr>calls := calls w @
           [Blob_NewClient (BlobConnectionString (Azure config)),
            Blob_UploadStream ''profile-pictures'' filename photo
              [(''ContentType'', ''image/jpeg'')]]\<rparr>)"
  by (simp add: blob_defs)

lemma uploadToBlobStorage_users_table:
  "users_table (snd (uploadToBlobStorage photo filename config oc w)) = users_table w"
  by (cases "blob_client_err oc"; cases "upload_err oc") (simp_all add: blob_defs)

lemma uploadToBlobStorage_calls:
  "\<exists>cs. calls (snd (uploadToBlobStorage photo filename config oc w)) = calls w @ cs
     \<and> list_all is_blob_call cs"
  by (cases "blob_client_err oc"; cases "upload_err oc") (simp_all add: blob_defs)

lemma sendToServiceBus_ok:
  "publish_succeeds oc \<Longrightarrow>
   sendToServiceBus user config oc w =
     (None,
      w\<lparr>calls := calls w @
           [SB_NewClient (ServiceBusConnectionString (Azure config)),
            SB_NewSender ''user-queue'',
            SB_SendMessage ''user-queue'' \<lparr>Body = User_json user\<rparr>,
            SB_Sender_Close, SB_Client_Close],
        queues := (queues w)(''user-queue'' :=
           queues w ''user-queue'' @ [\<lparr>Body = User_json user\<rparr>]),
        logs := logs w @ [(''User data sent to Service Bus: '', JsonArg (User_json user))]\<rparr>)"
  by (simp add: sb_defs publish_succeeds_def)

lemma sendToServiceBus_fails:
  "\<not> publish_succeeds oc \<Longrightarrow> fst (sendToServiceBus user config oc w) \<noteq> None"
  by (cases "sb_client_err oc"; cases "sender_err oc"; cases "marshal_err oc"; cases "send_err oc")
    (simp_all add: sb_defs publish_succeeds_def)

lemma sendToServiceBus_blobs:
  "blobs (snd (sendToServiceBus user config oc w)) = blobs w"
  by (cases "sb_client_err oc"; cases "sender_err oc"; cases "marshal_err oc"; cases "send_err oc")
    (simp_all add: sb_defs)

lemma sendToServiceBus_users_table:
  "users_table (snd (sendToServiceBus user config oc w)) = users_table w"
  by (cases "sb_client_err oc"; cases "sender_err oc"; cases "marshal_err oc"; cases "send_err oc")
    (simp_all add: sb_defs)

lemma sendToServiceBus_calls:
  "\<exists>cs. calls (snd (sendToServiceBus user config oc w)) = calls w @ cs
     \<and> list_all is_servicebus_call cs"
  by (cases "sb_client_err oc"; cases "sender_err oc"; cases "marshal_err oc"; cases "send_err oc")
    (simp_all add: sb_defs)

text \<open>Calls of one collaborator hold no call of another.\<close>

lemma servicebus_calls_no_blob_call:
  "list_all is_servicebus_call cs \<Longrightarrow> filter is_blob_call cs = []"
  by (induction cs) (auto elim: is_servicebus_call.elims)

lemma blob_calls_no_db_call: "list_all is_blob_call cs \<Longrightarrow> filter is_db_call cs = []"
  by (induction cs) (auto elim: is_blob_call.elims)

lemma servicebus_calls_no_db_call:
  "list_all is_servicebus_call cs \<Longrightarrow> filter is_db_call cs = []"
  by (induction cs) (auto elim: is_servicebus_call.elims)

lemma blob_calls_only:
  "list_all is_blob_call cs \<Longrightarrow>
   filter (\<lambda>c. \<not> is_blob_call c \<and> \<not> is_servicebus_call c) cs = []"
  by (induction cs) auto

lemma servicebus_calls_only:
  "list_all is_servicebus_call cs \<Longrightarrow>
   filter (\<lambda>c. \<not> is_blob_call c \<and> \<not> is_servicebus_call c) cs = []"
  by (induction cs) auto

section \<open>The create handler, branch by branch\<close>

lemma createUser_no_photo:
  "FormFile r ''photo'' = Inl err \<Longrightarrow>
   createUser rw r config oc w = (http_Error rw ''Invalid file upload'' StatusBadRequest, w)"
  by (simp add: createUser_def)

lemma createUser_upload_failed:
  assumes "FormFile r ''photo'' = Inr (photo, header)" and "\<not> upload_succeeds oc"
  shows "fst (createUser new_ResponseWriter r config oc w) =
           \<lparr>status = Some 500, body = [Text (''Error uploading file'' @ [CHR 0x0A])]\<rparr>"
proof (cases "blob_client_err oc")
  case (Some e)
  with assms show ?thesis
    by (simp add: createUser_def uploadToBlobStorage_client_fails rw_defs)
next
  case None
  with assms obtain e where "upload_err oc = Some e"
    by (auto simp: upload_succeeds_def)
  with None assms show ?thesis
    by (simp add: createUser_def uploadToBlobStorage_upload_fails rw_defs)
qed

lemma createUser_after_upload:
  assumes "FormFile r ''photo'' = Inr (photo, header)" and "upload_succeeds oc"
  shows "blobs (snd (createUser new_ResponseWriter r config oc w)) =
           (blobs w)((''profile-pictures'', Filename header) \<mapsto>
              \<lparr>content = photo, metadata = [(''ContentType'', ''image/jpeg'')]\<rparr>)"
    and "publish_succeeds oc \<Longrightarrow>
         fst (createUser new_ResponseWriter r config oc w) =
           \<lparr>status = Some 200,
            body = [JsonLine (JObject
              [(''message'', JString ''User created successfully''),
               (''profile_pic_url'', JString (''profile-pictures/'' @ Filename header))])]\<rparr>"
    and "\<not> publish_succeeds oc \<Longrightarrow>
         fst (createUser new_ResponseWriter r config oc w) =
           \<lparr>status = Some 500, body = [Text (''Error sending user data'' @ [CHR 0x0A])]\<rparr>"
proof -
  let ?w1 = "w\<lparr>calls := calls w @
           [Blob_NewClient (BlobConnectionString (Azure config)),
            Blob_UploadStream ''profile-pictures'' (Filename header) photo
              [(''ContentType'', ''image/jpeg'')]],
        blobs := (blobs w)((''profile-pictures'', Filename header) \<mapsto>
           \<lparr>content = photo, metadata = [(''ContentType'', ''image/jpeg'')]\<rparr>)\<rparr>"
  let ?user = "zero_User\<lparr>Name := FormValue r ''name'', Email := FormValue r ''email'',
                 Link := ''profile-pictures/'' @ Filename header\<rparr>"
  obtain res w2 where send: "sendToServiceBus ?user config oc ?w1 = (res, w2)"
    by (cases "sendToServiceBus ?user config oc ?w1")
  from sendToServiceBus_blobs [of ?user config oc ?w1] send
  have b: "blobs w2 = blobs ?w1" by simp
  show "blobs (snd (createUser new_ResponseWriter r config oc w)) =
           (blobs w)((''profile-pictures'', Filename header) \<mapsto>
              \<lparr>content = photo, metadata = [(''ContentType'', ''image/jpeg'')]\<rparr>)"
    using assms send b
    by (cases res) (simp_all add: createUser_def uploadToBlobStorage_ok rw_defs log_Printf_def)
  show "fst (createUser new_ResponseWriter r config oc w) =
           \<lparr>status = Some 200,
            body = [JsonLine (JObject
              [(''message'', JString ''User created successfully''),
               (''profile_pic_url'', JString (''profile-pictures/'' @ Filename header))])]\<rparr>"
    if "publish_succeeds oc"
    using assms that
    by (simp add: createUser_def uploadToBlobStorage_ok sendToServiceBus_ok rw_defs)
  show "fst (createUser new_ResponseWriter r config oc w) =
           \<lparr>status = Some 500, body = [Text (''Error sending user data'' @ [CHR 0x0A])]\<rparr>"
    if "\<not> publish_succeeds oc"
  proof -
    from sendToServiceBus_fails [OF that, of ?user config ?w1] send
    obtain e where "res = Some e" by auto
    with assms send show ?thesis
      by (simp add: createUser_def uploadToBlobStorage_ok rw_defs log_Printf_def)
  qed
qed

text \<open>A create request is answered with 200 exactly when the photo part is there and
  every call to the two Azure services succeeds.\<close>

lemma createUser_status_200_iff:
  "status_code (fst (createUser new_ResponseWriter r config oc w)) = 200 \<longleftrightarrow>
     (\<exists>p. FormFile r ''photo'' = Inr p) \<and> upload_succeeds oc \<and> publish_succeeds oc"
proof (cases "FormFile r ''photo''")
  case (Inl e)
  then show ?thesis by (simp add: createUser_no_photo rw_defs)
next
  case (Inr p)
  obtain photo header where p: "p = (photo, header)" by (cases p)
  show ?thesis
  proof (cases "upload_succeeds oc")
    case True
    with Inr p createUser_after_upload(2,3)
      [where r = r and photo = photo and header = header and oc = oc and config = config
         and w = w]
    show ?thesis by (cases "publish_succeeds oc") (simp_all add: rw_defs)
  next
    case False
    with Inr p createUser_upload_failed
      [where r = r and photo = photo and header = header and oc = oc and config = config
         and w = w]
    show ?thesis by (simp add: rw_defs)
  qed
qed

section \<open>The list handler, branch by branch\<close>

lemma scan_rows_Inr:
  "scan_rows rs acc = Inr us \<Longrightarrow>
   map Inr (elems us) = map Inr (elems acc) @ map (\<lambda>r. Scan r zero_User) rs"
  by (induction rs arbitrary: acc) (auto simp: append_slice_def split: sum.splits)

lemma scan_rows_Inl:
  "scan_rows rs acc = Inl e \<Longrightarrow> \<exists>r \<in> set rs. Scan r zero_User = Inl e"
  by (induction rs arbitrary: acc) (auto split: sum.splits)

lemma scan_rows_Unscannable:
  "Unscannable e \<in> set rs \<Longrightarrow> \<exists>e'. scan_rows rs acc = Inl e'"
  by (induction rs arbitrary: acc) (auto split: sum.splits)

lemma getUsers_query_error:
  "query_err oc = Some e \<Longrightarrow>
   fst (getUsers new_ResponseWriter oc w) =
     \<lparr>status = Some 500, body = [Text (''Error fetching users'' @ [CHR 0x0A])]\<rparr>"
  by (simp add: db_defs rw_defs)

lemma getUsers_scan_error:
  "query_err oc = None \<Longrightarrow> next_err oc = None \<Longrightarrow> Unscannable e \<in> set (users_table w) \<Longrightarrow>
   fst (getUsers new_ResponseWriter oc w) =
     \<lparr>status = Some 500, body = [Text (''Error scanning user data'' @ [CHR 0x0A])]\<rparr>"
  using scan_rows_Unscannable [of e "users_table w" None]
  by (auto simp: db_defs rw_defs)

lemma getUsers_all_rows:
  assumes "query_err oc = None" and "next_err oc = None"
    and "scan_rows (users_table w) nil_slice = Inr us"
  shows "fst (getUsers new_ResponseWriter oc w) =
           \<lparr>status = Some 200, body = [JsonLine (users_json us)]\<rparr>"
    and "map Inr (elems us) = map (\<lambda>r. Scan r zero_User) (users_table w)"
  using assms scan_rows_Inr [OF assms(3)] by (simp_all add: db_defs rw_defs)

text \<open>With no row the slice is still \<^verbatim>\<open>nil\<close> when it is encoded.\<close>

lemma getUsers_empty_table:
  "users_table w = [] \<Longrightarrow> query_err oc = None \<Longrightarrow>
   fst (getUsers new_ResponseWriter oc w) = \<lparr>status = Some 200, body = [JsonLine JNull]\<rparr>"
  by (cases "next_err oc") (auto simp: db_defs rw_defs)

text \<open>A cursor that fails after \<open>n\<close> rows ends the loop like an exhausted one: the rows
  scanned so far are encoded with status 200.\<close>

lemma getUsers_broken_cursor:
  assumes "query_err oc = None" and "next_err oc = Some (n, e)"
    and "scan_rows (take n (users_table w)) nil_slice = Inr us"
  shows "fst (getUsers new_ResponseWriter oc w) =
           \<lparr>status = Some 200, body = [JsonLine (users_json us)]\<rparr>"
  using assms by (simp add: db_defs rw_defs)

section \<open>The claims\<close>

text \<open>
  C1. A create request with a valid photo part, for which the blob upload and the queue
  publish both succeed, is answered with status 200 and a JSON object whose
  \<^verbatim>\<open>message\<close> is the string \<^verbatim>\<open>User created successfully\<close> and whose
  \<^verbatim>\<open>profile_pic_url\<close> is a non-empty string.
\<close>

theorem createUser_success_response:
  assumes "FormFile r ''photo'' = Inr (photo, header)"
    and "upload_succeeds oc" and "publish_succeeds oc"
  shows "case createUser new_ResponseWriter r config oc w of (rw', w') \<Rightarrow>
     status_code rw' = 200 \<and>
     (\<exists>doc url. body rw' = [JsonLine doc] \<and>
        member ''message'' doc = Some (JString ''User created successfully'') \<and>
        member ''profile_pic_url'' doc = Some (JString url) \<and> url \<noteq> [])"
  using assms
  by (simp add: createUser_def uploadToBlobStorage_ok sendToServiceBus_ok rw_defs)

theorem createUser_success_response_witness:
  "FormFile sample_request ''photo'' = Inr (''PNG-bytes'', \<lparr>Filename = ''ada.png''\<rparr>) \<and>
   upload_succeeds all_succeed \<and> publish_succeeds all_succeed \<and>
   (case createUser new_ResponseWriter sample_request sample_config all_succeed empty_world of
      (rw', w') \<Rightarrow>
        status_code rw' = 200 \<and>
        (\<exists>doc url. body rw' = [JsonLine doc] \<and>
           member ''message'' doc = Some (JString ''User created successfully'') \<and>
           member ''profile_pic_url'' doc = Some (JString url) \<and> url \<noteq> []))"
proof -
  have p: "FormFile sample_request ''photo'' = Inr (''PNG-bytes'', \<lparr>Filename = ''ada.png''\<rparr>)"
    by (simp add: sample_request_def)
  have up: "upload_succeeds all_succeed"
    by (simp add: upload_succeeds_def all_succeed_def)
  have pub: "publish_succeeds all_succeed"
    by (simp add: publish_succeeds_def all_succeed_def)
  from createUser_success_response [where config = sample_config and w = empty_world,
      OF p up pub] p up pub
  show ?thesis by simp
qed

text \<open>
  C2. A list request against an empty user table, the query succeeding with no row, is
  answered with status 200 and the empty JSON array. The handler declares
  \<^verbatim>\<open>var users []User\<close>, never appends, and encodes the \<^verbatim>\<open>nil\<close> slice: the body
  is \<^verbatim>\<open>null\<close>, not \<^verbatim>\<open>[]\<close>. The theorem runs the handler on the empty table.
\<close>

theorem getUsers_empty_table_writes_null:
  "fst (getUsers new_ResponseWriter db_succeeds empty_world) =
     \<lparr>status = Some 200, body = [JsonLine JNull]\<rparr> \<and>
   JsonLine JNull \<noteq> JsonLine (JArray [])"
  by (simp add: db_defs db_succeeds_def empty_world_def rw_defs)

text \<open>
  C3. When the query, the iteration over the rows or a scan fails, the list operation
  answers 500 with no partial result; otherwise it returns the users of the rows in
  the store's order. The loop ends when \<^verbatim>\<open>rows.Next()\<close> is false and the handler
  never reads \<^verbatim>\<open>rows.Err()\<close>: on a table of two rows whose cursor breaks after the
  first, the answer is 200 with the first user alone. The theorem runs that case.
\<close>

theorem getUsers_broken_cursor_partial_result:
  "fst (getUsers new_ResponseWriter cursor_breaks two_user_world) =
     \<lparr>status = Some 200,
      body = [JsonLine (JArray [User_json
         \<lparr>ID = 1, Name = ''Ada'', Email = ''ada@example.org'',
          Link = ''profile-pictures/ada.png'', CreatedAt = zero_Time\<rparr>])]\<rparr>"
  by (simp add: db_defs cursor_breaks_def two_user_world_def empty_world_def rw_defs
      zero_User_def)

text \<open>
  C4. When the blob upload succeeds and the queue publish then fails, the create request
  is answered with status 500 and the uploaded object stays: the blob store after the
  request is the store before with the object added, and the only calls to the blob
  store are the client construction and the upload (no delete, no rollback).
\<close>

theorem createUser_publish_failure_keeps_blob:
  assumes "FormFile r ''photo'' = Inr (photo, header)"
    and "upload_succeeds oc" and "\<not> publish_succeeds oc"
  shows "case createUser new_ResponseWriter r config oc w of (rw', w') \<Rightarrow>
     status_code rw' = 500 \<and>
     blobs w' = (blobs w)((''profile-pictures'', Filename header) \<mapsto>
        \<lparr>content = photo, metadata = [(''ContentType'', ''image/jpeg'')]\<rparr>) \<and>
     filter is_blob_call (calls_made w w') =
       [Blob_NewClient (BlobConnectionString (Azure config)),
        Blob_UploadStream ''profile-pictures'' (Filename header) photo
          [(''ContentType'', ''image/jpeg'')]]"
proof -
  let ?w1 = "snd (uploadToBlobStorage photo (Filename header) config oc w)"
  let ?user = "zero_User\<lparr>Name := FormValue r ''name'', Email := FormValue r ''email'',
                 Link := ''profile-pictures/'' @ Filename header\<rparr>"
  obtain res w2 where send: "sendToServiceBus ?user config oc ?w1 = (res, w2)"
    by (cases "sendToServiceBus ?user config oc ?w1")
  from sendToServiceBus_fails [OF assms(3), of ?user config ?w1] send
  obtain e where res: "res = Some e" by auto
  from sendToServiceBus_blobs [of ?user config oc ?w1] send
  have b: "blobs w2 = blobs ?w1" by simp
  from sendToServiceBus_calls [of ?user config oc ?w1] send
  obtain cs where cs: "calls w2 = calls ?w1 @ cs" "list_all is_servicebus_call cs" by auto
  from cs(2) have nb: "filter is_blob_call cs = []"
    by (rule servicebus_calls_no_blob_call)
  show ?thesis
    using assms(1,2) send res b cs(1) nb
    by (simp add: createUser_def uploadToBlobStorage_ok rw_defs log_Printf_def calls_made_def)
qed

theorem createUser_publish_failure_keeps_blob_witness:
  "FormFile sample_request ''photo'' = Inr (''PNG-bytes'', \<lparr>Filename = ''ada.png''\<rparr>) \<and>
   upload_succeeds send_fails \<and> \<not> publish_succeeds send_fails \<and>
   (case createUser new_ResponseWriter sample_request sample_config send_fails empty_world of
      (rw', w') \<Rightarrow>
        status_code rw' = 500 \<and>
        blobs w' = (blobs empty_world)((''profile-pictures'', ''ada.png'') \<mapsto>
           \<lparr>content = ''PNG-bytes'', metadata = [(''ContentType'', ''image/jpeg'')]\<rparr>) \<and>
        filter is_blob_call (calls_made empty_world w') =
          [Blob_NewClient (BlobConnectionString (Azure sample_config)),
           Blob_UploadStream ''profile-pictures'' ''ada.png'' ''PNG-bytes''
             [(''ContentType'', ''image/jpeg'')]])"
proof -
  have p: "FormFile sample_request ''photo'' = Inr (''PNG-bytes'', \<lparr>Filename = ''ada.png''\<rparr>)"
    by (simp add: sample_request_def)
  have up: "upload_succeeds send_fails"
    by (simp add: upload_succeeds_def send_fails_def all_succeed_def)
  have pub: "\<not> publish_succeeds send_fails"
    by (simp add: publish_succeeds_def send_fails_def all_succeed_def)
  from createUser_publish_failure_keeps_blob [where config = sample_config and w = empty_world,
      OF p up pub] p up pub
  show ?thesis by simp
qed

text \<open>
  C5. A create request whose photo part is absent or malformed is answered with status
  400, and neither the upload nor the publish is attempted: no collaborator is called
  and the world is left as it was.
\<close>

theorem createUser_missing_photo:
  assumes "FormFile r ''photo'' = Inl err"
  shows "case createUser new_ResponseWriter r config oc w of (rw', w') \<Rightarrow>
     status_code rw' = 400 \<and> calls_made w w' = [] \<and> w' = w"
  using assms by (simp add: createUser_def rw_defs calls_made_def)

theorem createUser_missing_photo_witness:
  "FormFile request_without_photo ''photo'' = Inl (Error ''http: no such file'') \<and>
   (case createUser new_ResponseWriter request_without_photo sample_config all_succeed
           empty_world of
      (rw', w') \<Rightarrow> status_code rw' = 400 \<and> calls_made empty_world w' = [] \<and> w' = empty_world)"
proof -
  have p: "FormFile request_without_photo ''photo'' = Inl (Error ''http: no such file'')"
    by (simp add: request_without_photo_def)
  from createUser_missing_photo [where config = sample_config and w = empty_world
      and oc = all_succeed, OF p] p
  show ?thesis by simp
qed

text \<open>
  C6. When the blob upload fails (the client cannot be constructed or the transfer
  fails), the create request is answered with status 500 and the publish is never
  attempted: no call to the Service Bus is made and no queue changes.
\<close>

theorem createUser_upload_failure:
  assumes "FormFile r ''photo'' = Inr (photo, header)" and "\<not> upload_succeeds oc"
  shows "case createUser new_ResponseWriter r config oc w of (rw', w') \<Rightarrow>
     status_code rw' = 500 \<and>
     filter is_servicebus_call (calls_made w w') = [] \<and>
     queues w' = queues w"
proof (cases "blob_client_err oc")
  case (Some e)
  with assms show ?thesis
    by (simp add: createUser_def uploadToBlobStorage_client_fails rw_defs log_Printf_def
        calls_made_def)
next
  case None
  with assms obtain e where "upload_err oc = Some e"
    by (auto simp: upload_succeeds_def)
  with None assms show ?thesis
    by (simp add: createUser_def uploadToBlobStorage_upload_fails rw_defs log_Printf_def
        calls_made_def)
qed

theorem createUser_upload_failure_witness:
  "FormFile sample_request ''photo'' = Inr (''PNG-bytes'', \<lparr>Filename = ''ada.png''\<rparr>) \<and>
   \<not> upload_succeeds upload_fails \<and>
   (case createUser new_ResponseWriter sample_request sample_config upload_fails empty_world of
      (rw', w') \<Rightarrow>
        status_code rw' = 500 \<and>
        filter is_servicebus_call (calls_made empty_world w') = [] \<and>
        queues w' = queues empty_world)"
proof -
  have p: "FormFile sample_request ''photo'' = Inr (''PNG-bytes'', \<lparr>Filename = ''ada.png''\<rparr>)"
    by (simp add: sample_request_def)
  have up: "\<not> upload_succeeds upload_fails"
    by (simp add: upload_succeeds_def upload_fails_def all_succeed_def)
  from createUser_upload_failure [where config = sample_config and w = empty_world,
      OF p up] p up
  show ?thesis by simp
qed

text \<open>
  C7. For every stream, filename and configuration, the upload goes to the one container
  \<^verbatim>\<open>profile-pictures\<close> under the given filename, with the metadata value
  \<^verbatim>\<open>image/jpeg\<close> whatever the bytes are: the one \<^verbatim>\<open>UploadStream\<close> call made once the
  client exists has these arguments (none is made when the client cannot be constructed),
  and when the upload succeeds the store holds the bytes under that key with that
  metadata.
\<close>

theorem uploadToBlobStorage_fixed_container_and_type:
  "case uploadToBlobStorage photo filename config oc w of (res, w') \<Rightarrow>
     filter is_upload_call (calls_made w w') =
       (if blob_client_err oc = None
        then [Blob_UploadStream ''profile-pictures'' filename photo
                [(''ContentType'', ''image/jpeg'')]]
        else []) \<and>
     (upload_succeeds oc \<longrightarrow>
        blobs w' = (blobs w)((''profile-pictures'', filename) \<mapsto>
          \<lparr>content = photo, metadata = [(''ContentType'', ''image/jpeg'')]\<rparr>))"
  by (cases "blob_client_err oc"; cases "upload_err oc")
    (simp_all add: blob_defs upload_succeeds_def calls_made_def)

theorem uploadToBlobStorage_fixed_container_and_type_witness:
  "blob_client_err all_succeed = None \<and> upload_succeeds all_succeed \<and>
   (case uploadToBlobStorage ''PNG-bytes'' ''ada.png'' sample_config all_succeed empty_world of
      (res, w') \<Rightarrow>
        filter is_upload_call (calls_made empty_world w') =
          [Blob_UploadStream ''profile-pictures'' ''ada.png'' ''PNG-bytes''
             [(''ContentType'', ''image/jpeg'')]] \<and>
        blobs w' = (blobs empty_world)((''profile-pictures'', ''ada.png'') \<mapsto>
          \<lparr>content = ''PNG-bytes'', metadata = [(''ContentType'', ''image/jpeg'')]\<rparr>))"
proof -
  have c: "blob_client_err all_succeed = None" and up: "upload_succeeds all_succeed"
    by (simp_all add: all_succeed_def upload_succeeds_def)
  from uploadToBlobStorage_fixed_container_and_type
    [where photo = "''PNG-bytes''" and filename = "''ada.png''" and config = sample_config
       and oc = all_succeed and w = empty_world] c up
  show ?thesis by (simp split: prod.splits)
qed

text \<open>
  C8. On a successful create exactly one message is sent, to the queue \<^verbatim>\<open>user-queue\<close>;
  its body is the JSON document of the \<^verbatim>\<open>User\<close> built by the handler, whose
  \<^verbatim>\<open>ID\<close> and \<^verbatim>\<open>CreatedAt\<close> are the zero values; the name, the email and the link
  are the form fields and the reference of the upload.
\<close>

theorem createUser_publishes_one_message:
  assumes "FormFile r ''photo'' = Inr (photo, header)"
    and "upload_succeeds oc" and "publish_succeeds oc"
  shows "case createUser new_ResponseWriter r config oc w of (rw', w') \<Rightarrow>
     (\<exists>user.
        user = \<lparr>ID = 0, Name = FormValue r ''name'', Email = FormValue r ''email'',
                Link = ''profile-pictures/'' @ Filename header, CreatedAt = zero_Time\<rparr> \<and>
        filter is_send_call (calls_made w w') =
          [SB_SendMessage ''user-queue'' \<lparr>Body = User_json user\<rparr>] \<and>
        queues w' = (queues w)(''user-queue'' :=
          queues w ''user-queue'' @ [\<lparr>Body = User_json user\<rparr>]) \<and>
        member ''id'' (User_json user) = Some (JNumber 0) \<and>
        member ''createdAt'' (User_json user) = Some (JTime zero_Time))"
  using assms
  by (simp add: createUser_def uploadToBlobStorage_ok sendToServiceBus_ok rw_defs calls_made_def
      zero_User_def User_json_def)

theorem createUser_publishes_one_message_witness:
  "FormFile sample_request ''photo'' = Inr (''PNG-bytes'', \<lparr>Filename = ''ada.png''\<rparr>) \<and>
   upload_succeeds all_succeed \<and> publish_succeeds all_succeed \<and>
   (case createUser new_ResponseWriter sample_request sample_config all_succeed empty_world of
      (rw', w') \<Rightarrow>
     (\<exists>user.
        user = \<lparr>ID = 0, Name = FormValue sample_request ''name'',
                Email = FormValue sample_request ''email'',
                Link = ''profile-pictures/'' @ ''ada.png'', CreatedAt = zero_Time\<rparr> \<and>
        filter is_send_call (calls_made empty_world w') =
          [SB_SendMessage ''user-queue'' \<lparr>Body = User_json user\<rparr>] \<and>
        queues w' = (queues empty_world)(''user-queue'' :=
          queues empty_world ''user-queue'' @ [\<lparr>Body = User_json user\<rparr>]) \<and>
        member ''id'' (User_json user) = Some (JNumber 0) \<and>
        member ''createdAt'' (User_json user) = Some (JTime zero_Time)))"
proof -
  have p: "FormFile sample_request ''photo'' = Inr (''PNG-bytes'', \<lparr>Filename = ''ada.png''\<rparr>)"
    by (simp add: sample_request_def)
  have up: "upload_succeeds all_succeed"
    by (simp add: upload_succeeds_def all_succeed_def)
  have pub: "publish_succeeds all_succeed"
    by (simp add: publish_succeeds_def all_succeed_def)
  from createUser_publishes_one_message [where config = sample_config and w = empty_world,
      OF p up pub] p up pub
  show ?thesis by simp
qed

text \<open>
  C9. Whatever its outcome, a create request performs no operation on the relational
  store: the user table is unchanged and no database call is made. Every call the
  handler makes goes to the blob store or to the Service Bus, so the record leaves the
  service through the queue alone.
\<close>

theorem createUser_leaves_database:
  "case createUser rw r config oc w of (rw', w') \<Rightarrow>
     users_table w' = users_table w \<and>
     filter is_db_call (calls_made w w') = [] \<and>
     filter (\<lambda>c. \<not> is_blob_call c \<and> \<not> is_servicebus_call c) (calls_made w w') = []"
proof (cases "FormFile r ''photo''")
  case (Inl err)
  then show ?thesis by (simp add: createUser_def calls_made_def)
next
  case (Inr p)
  obtain photo header where p: "p = (photo, header)" by (cases p)
  obtain res w1 where up: "uploadToBlobStorage photo (Filename header) config oc w = (res, w1)"
    by (cases "uploadToBlobStorage photo (Filename header) config oc w")
  from uploadToBlobStorage_users_table [of photo "Filename header" config oc w] up
  have t1: "users_table w1 = users_table w" by simp
  from uploadToBlobStorage_calls [of photo "Filename header" config oc w] up
  obtain cs1 where cs1: "calls w1 = calls w @ cs1" "list_all is_blob_call cs1" by auto
  show ?thesis
  proof (cases res)
    case (Inl err)
    with Inr p up t1 cs1 show ?thesis
      by (simp add: createUser_def log_Printf_def calls_made_def blob_calls_no_db_call
          blob_calls_only)
  next
    case (Inr url)
    let ?user = "zero_User\<lparr>Name := FormValue r ''name'', Email := FormValue r ''email'',
                   Link := url\<rparr>"
    obtain res2 w2 where send: "sendToServiceBus ?user config oc w1 = (res2, w2)"
      by (cases "sendToServiceBus ?user config oc w1")
    from sendToServiceBus_users_table [of ?user config oc w1] send
    have t2: "users_table w2 = users_table w1" by simp
    from sendToServiceBus_calls [of ?user config oc w1] send
    obtain cs2 where cs2: "calls w2 = calls w1 @ cs2" "list_all is_servicebus_call cs2" by auto
    from Inr \<open>FormFile r ''photo'' = Inr p\<close> p up t1 cs1 send t2 cs2 show ?thesis
      by (cases res2)
        (simp_all add: createUser_def log_Printf_def calls_made_def Let_def
          blob_calls_no_db_call servicebus_calls_no_db_call blob_calls_only
          servicebus_calls_only)
  qed
qed

theorem createUser_leaves_database_witness:
  "case createUser new_ResponseWriter sample_request sample_config all_succeed two_user_world of
     (rw', w') \<Rightarrow>
       users_table w' = users_table two_user_world \<and>
       filter is_db_call (calls_made two_user_world w') = [] \<and>
       filter (\<lambda>c. \<not> is_blob_call c \<and> \<not> is_servicebus_call c)
         (calls_made two_user_world w') = []"
  using createUser_leaves_database [where rw = new_ResponseWriter and r = sample_request
      and config = sample_config and oc = all_succeed and w = two_user_world] .

text \<open>
  C10. The photo reference is the fixed container name, a slash and the filename of the
  photo part, and nothing else. Two create requests whose photo parts carry the same
  filename, served one after the other, get the same reference (when they are answered
  with 200) and write the same blob object: after the second request the store holds
  the second photo under that key, and nothing else was added.
\<close>

theorem createUser_same_filename_same_blob:
  assumes "FormFile r1 ''photo'' = Inr (photo1, header1)"
    and "FormFile r2 ''photo'' = Inr (photo2, header2)"
    and "Filename header1 = Filename header2"
    and "upload_succeeds oc1" and "upload_succeeds oc2"
  shows "case createUser new_ResponseWriter r1 config oc1 w of (rw1, w1) \<Rightarrow>
         case createUser new_ResponseWriter r2 config oc2 w1 of (rw2, w2) \<Rightarrow>
     (if publish_succeeds oc1
      then body rw1 = [JsonLine (JObject
             [(''message'', JString ''User created successfully''),
              (''profile_pic_url'', JString (''profile-pictures'' @ ''/'' @ Filename header1))])]
      else status_code rw1 = 500) \<and>
     (if publish_succeeds oc2
      then body rw2 = [JsonLine (JObject
             [(''message'', JString ''User created successfully''),
              (''profile_pic_url'', JString (''profile-pictures'' @ ''/'' @ Filename header1))])]
      else status_code rw2 = 500) \<and>
     blobs w1 = (blobs w)((''profile-pictures'', Filename header1) \<mapsto>
        \<lparr>content = photo1, metadata = [(''ContentType'', ''image/jpeg'')]\<rparr>) \<and>
     blobs w2 = (blobs w)((''profile-pictures'', Filename header1) \<mapsto>
        \<lparr>content = photo2, metadata = [(''ContentType'', ''image/jpeg'')]\<rparr>)"
proof -
  obtain rw1 w1 where c1: "createUser new_ResponseWriter r1 config oc1 w = (rw1, w1)"
    by (cases "createUser new_ResponseWriter r1 config oc1 w")
  obtain rw2 w2 where c2: "createUser new_ResponseWriter r2 config oc2 w1 = (rw2, w2)"
    by (cases "createUser new_ResponseWriter r2 config oc2 w1")
  from createUser_after_upload [OF assms(1,4), of config w] c1
  have b1: "blobs w1 = (blobs w)((''profile-pictures'', Filename header1) \<mapsto>
        \<lparr>content = photo1, metadata = [(''ContentType'', ''image/jpeg'')]\<rparr>)"
    and ok1: "publish_succeeds oc1 \<Longrightarrow> rw1 = \<lparr>status = Some 200,
            body = [JsonLine (JObject
              [(''message'', JString ''User created successfully''),
               (''profile_pic_url'', JString (''profile-pictures/'' @ Filename header1))])]\<rparr>"
    and ko1: "\<not> publish_succeeds oc1 \<Longrightarrow> rw1 =
           \<lparr>status = Some 500, body = [Text (''Error sending user data'' @ [CHR 0x0A])]\<rparr>"
    by simp_all
  from createUser_after_upload [OF assms(2,5), of config w1] c2 assms(3)
  have b2: "blobs w2 = (blobs w1)((''profile-pictures'', Filename header1) \<mapsto>
        \<lparr>content = photo2, metadata = [(''ContentType'', ''image/jpeg'')]\<rparr>)"
    and ok2: "publish_succeeds oc2 \<Longrightarrow> rw2 = \<lparr>status = Some 200,
            body = [JsonLine (JObject
              [(''message'', JString ''User created successfully''),
               (''profile_pic_url'', JString (''profile-pictures/'' @ Filename header1))])]\<rparr>"
    and ko2: "\<not> publish_succeeds oc2 \<Longrightarrow> rw2 =
           \<lparr>status = Some 500, body = [Text (''Error sending user data'' @ [CHR 0x0A])]\<rparr>"
    by simp_all
  show ?thesis
    using c1 c2 b1 b2 ok1 ko1 ok2 ko2 by (simp add: status_code_def)
qed

theorem createUser_same_filename_same_blob_witness:
  "FormFile sample_request ''photo'' = Inr (''PNG-bytes'', \<lparr>Filename = ''ada.png''\<rparr>) \<and>
   FormFile second_request ''photo'' = Inr (''JPEG-bytes'', \<lparr>Filename = ''ada.png''\<rparr>) \<and>
   upload_succeeds all_succeed \<and> publish_succeeds all_succeed \<and>
   (case createUser new_ResponseWriter sample_request sample_config all_succeed empty_world of
      (rw1, w1) \<Rightarrow>
    case createUser new_ResponseWriter second_request sample_config all_succeed w1 of
      (rw2, w2) \<Rightarrow>
        body rw1 = [JsonLine (JObject
             [(''message'', JString ''User created successfully''),
              (''profile_pic_url'', JString ''profile-pictures/ada.png'')])] \<and>
        body rw2 = body rw1 \<and>
        blobs w1 (''profile-pictures'', ''ada.png'') =
          Some \<lparr>content = ''PNG-bytes'', metadata = [(''ContentType'', ''image/jpeg'')]\<rparr> \<and>
        blobs w2 (''profile-pictures'', ''ada.png'') =
          Some \<lparr>content = ''JPEG-bytes'', metadata = [(''ContentType'', ''image/jpeg'')]\<rparr> \<and>
        dom (blobs w2) = {(''profile-pictures'', ''ada.png'')})"
proof -
  have p1: "FormFile sample_request ''photo'' = Inr (''PNG-bytes'', \<lparr>Filename = ''ada.png''\<rparr>)"
    by (simp add: sample_request_def)
  have p2: "FormFile second_request ''photo'' = Inr (''JPEG-bytes'', \<lparr>Filename = ''ada.png''\<rparr>)"
    by (simp add: second_request_def)
  have same: "Filename \<lparr>Filename = ''ada.png''\<rparr> = Filename \<lparr>Filename = ''ada.png''\<rparr>"
    by simp
  have up: "upload_succeeds all_succeed"
    by (simp add: upload_succeeds_def all_succeed_def)
  have pub: "publish_succeeds all_succeed"
    by (simp add: publish_succeeds_def all_succeed_def)
  from createUser_same_filename_same_blob [where config = sample_config and w = empty_world,
      OF p1 p2 same up up] p1 p2 up pub
  show ?thesis by (auto simp: empty_world_def split: prod.splits)
qed

end
